theory Spec2Isabelle
  imports Complex_Main "HOL-Library.Word"
begin

unbundle bit_operations_syntax

section \<open>Shallow embedding of \<open>analytics.py\<close>\<close>

text \<open>
  The module is a collection of pure Python functions. Conventions of the embedding:
  \<^item> Python's unbounded integers are \<open>int\<close>; \<open>|\<close> is \<open>OR\<close>, \<open>1 << k\<close> is \<open>push_bit k 1\<close>.
  \<^item> Python's \<open>str\<close> is \<open>string\<close>; the quadkeys of interest are ASCII, where one
    character is one \<open>char\<close>.
  \<^item> \<open>print\<close> is a write to standard output: a function that prints returns the lines
    it has printed next to its value.
  \<^item> An exception is a value of the type \<open>error\<close>; a function that can raise returns
    \<open>error + 'a\<close>, with \<open>Inl\<close> for the exception.
  \<^item> A \<open>dict\<close> of attributes is an association list in insertion order with unique keys;
    \<open>data[key]\<close> is \<open>map_of data key\<close>, raising \<open>KeyError\<close> on \<open>None\<close>.
  \<^item> Python's \<open>float\<close> arithmetic and the numpy functions \<open>log\<close>, \<open>tan\<close>, \<open>exp\<close> and
    \<open>arctan\<close> are idealised as the operations of \<open>real\<close>, operation by operation and in the
    order of the source. Rounding, infinities and NaN are outside this model.
\<close>

subsection \<open>Exceptions\<close>

datatype pykey = IntKey int | StrKey string

text \<open>
  \<open>KeyError\<close> (with the missing key) and \<open>TypeError\<close> are the exceptions the module's
  own statements can raise. \<open>UnsupportedZoomLevel lo hi\<close> and \<open>GeodesicNonConvergence\<close>
  are the failures named by the specification's error taxonomy; no statement of the
  module raises them, and they are in the type only so that statements about them can be
  written down.
\<close>

datatype error =
    KeyError pykey
  | TypeError
  | UnsupportedZoomLevel int int
  | GeodesicNonConvergence

subsection \<open>\<open>quadkey_to_tile_coordinates\<close>\<close>

type_synonym stdout = "string list"

text \<open>
  The body of \<open>for i in range(tile_size, 0, -1)\<close>, for \<open>i = Suc j\<close> down to \<open>1\<close>, on the
  loop state \<open>(x, y)\<close> and the lines printed so far. The index \<open>tile_size - i\<close> is between
  \<open>0\<close> and \<open>tile_size - 1\<close>, so the read never raises \<open>IndexError\<close>.
\<close>

fun quadkey_loop :: "string \<Rightarrow> nat \<Rightarrow> int \<times> int \<times> stdout \<Rightarrow> int \<times> int \<times> stdout" where
  "quadkey_loop quadkey 0 s = s"
| "quadkey_loop quadkey (Suc j) (x, y, out) =
     (let i = Suc j;
          mask = push_bit (i - 1) (1::int);
          digit = quadkey ! (length quadkey - i)
      in if digit = CHR ''0'' then quadkey_loop quadkey j (x, y, out)
         else if digit = CHR ''1'' then quadkey_loop quadkey j (x OR mask, y, out)
         else if digit = CHR ''2'' then quadkey_loop quadkey j (x, y OR mask, out)
         else if digit = CHR ''3'' then quadkey_loop quadkey j (x OR mask, y OR mask, out)
         else quadkey_loop quadkey j
                (x, y, out @ [''[ERROR] Invalid quadkey digit sequence.'']))"

definition quadkey_to_tile_coordinates :: "string \<Rightarrow> (int \<times> int) \<times> stdout" where
  "quadkey_to_tile_coordinates quadkey =
     (let tile_size = length quadkey;
          (x, y, out) = quadkey_loop quadkey tile_size (0, 0, [])
      in ((x, y), out))"

text \<open>The four digits of a well-formed quadkey.\<close>

definition quadkey_digits :: "char set" where
  "quadkey_digits = {CHR ''0'', CHR ''1'', CHR ''2'', CHR ''3''}"

subsection \<open>The Mercator projection and its inverse\<close>

definition spherical_to_mercator_coordinates :: "real \<Rightarrow> real \<Rightarrow> real \<times> real" where
  "spherical_to_mercator_coordinates lon lat =
     (let earth_radius = 6378137;
          x = earth_radius * lon * pi / 180;
          y = earth_radius * ln (tan (pi / 4 + lat * pi / 360))
      in (y, x))"

definition mercator_to_spherical_coordinates :: "real \<Rightarrow> real \<Rightarrow> real \<times> real" where
  "mercator_to_spherical_coordinates y x =
     (let earth_radius = 6378137;
          lon = x / earth_radius * 180 / pi;
          lat = (2 * arctan (exp (y / earth_radius)) - pi / 2) * 180 / pi
      in (lon, lat))"

text \<open>
  The two formulas as the specification writes them (section 4.2), with
  \<open>R = 6378137\<close>; \<open>toMercator\<close> returns \<open>(y, x)\<close> and \<open>toSpherical\<close> returns \<open>(lon, lat)\<close>.
\<close>

definition spec_R :: real where
  "spec_R = 6378137"

definition spec_toMercator :: "real \<Rightarrow> real \<Rightarrow> real \<times> real" where
  "spec_toMercator lon lat =
     (spec_R * ln (tan (pi / 4 + lat * pi / 360)), spec_R * lon * pi / 180)"

definition spec_toSpherical :: "real \<Rightarrow> real \<Rightarrow> real \<times> real" where
  "spec_toSpherical y x =
     (x / spec_R * 180 / pi, (2 * arctan (exp (y / spec_R)) - pi / 2) * 180 / pi)"

subsection \<open>\<open>get_tile_vertices\<close>\<close>

text \<open>The dictionary literal \<open>tile_length\<close>, zoom level to edge length in Mercator metres.\<close>

definition tile_length :: "(int \<times> real) list" where
  "tile_length =
     [(1,  20015089.262170314752),
      (2,  10007544.631085157376),
      (3,  5003772.315542578688),
      (4,  2501886.157771289344),
      (5,  1250943.078885644672),
      (6,  625471.539442822336),
      (7,  312735.769721411168),
      (8,  156367.884860705584),
      (9,  78183.942430352792),
      (10, 39091.971215176396),
      (11, 19545.985607588198),
      (12, 9772.992803794099),
      (13, 4886.4964018970495),
      (14, 2443.24820094852475),
      (15, 1221.624100474262375),
      (16, 610.8120502371311875)]"

type_synonym point = "real \<times> real"

text \<open>
  \<open>tile_length[tile_size]\<close> is evaluated first and raises \<open>KeyError\<close> for a key that is not
  in the dictionary; only then is the centre projected and the four corners computed.
\<close>

definition get_tile_vertices ::
  "real \<Rightarrow> real \<Rightarrow> int \<Rightarrow> error + (point \<times> point \<times> point \<times> point)" where
  "get_tile_vertices lon lat tile_size =
     (case map_of tile_length tile_size of
        None \<Rightarrow> Inl (KeyError (IntKey tile_size))
      | Some length' \<Rightarrow>
          (let (y, x) = spherical_to_mercator_coordinates lon lat;
               p0 = mercator_to_spherical_coordinates (y + length' / 2) (x - length' / 2);
               p1 = mercator_to_spherical_coordinates (y + length' / 2) (x + length' / 2);
               p2 = mercator_to_spherical_coordinates (y - length' / 2) (x - length' / 2);
               p3 = mercator_to_spherical_coordinates (y - length' / 2) (x + length' / 2)
           in Inr (p0, p1, p2, p3)))"

subsection \<open>\<open>orthodrome_length\<close>\<close>

text \<open>
  \<open>vincenty\<close> is imported from the third-party package of the same name and is no part
  of the module: it is a parameter of the model. Its result is either a \<open>float\<close> (a
  distance in kilometres) or \<open>None\<close>, the value with which the package reports that its
  iteration has not converged. Python's \<open>None * 1000\<close> raises \<open>TypeError\<close>.
\<close>

definition orthodrome_length ::
  "(point \<Rightarrow> point \<Rightarrow> real option) \<Rightarrow> real \<Rightarrow> real \<Rightarrow> real \<Rightarrow> real \<Rightarrow> error + real" where
  "orthodrome_length vincenty lat1 lon1 lat2 lon2 =
     (case vincenty (lat1, lon1) (lat2, lon2) of
        None \<Rightarrow> Inl TypeError
      | Some km \<Rightarrow> (let length' = km * 1000 in Inr length'))"

subsection \<open>\<open>search_edges\<close> and \<open>search_nodes\<close>\<close>

text \<open>
  A graph, as far as the searches read it: \<open>nodes_data\<close> and \<open>edges_data\<close> are the
  sequences that \<open>graph.nodes.data()\<close> and \<open>graph.edges.data()\<close> iterate over, each
  element with its attribute dictionary.
  The keyword arguments \<open>**kwargs\<close> are a dictionary with string keys.
\<close>

type_synonym 'v attrs = "(string \<times> 'v) list"

record ('n, 'v) digraph =
  nodes_data :: "('n \<times> 'v attrs) list"
  edges_data :: "('n \<times> 'n \<times> 'v attrs) list"

text \<open>
  \<open>all(data[key] == value for key, value in kwargs.items())\<close>: the generator is consumed
  in the order of \<open>kwargs\<close>; \<open>data[key]\<close> raises \<open>KeyError\<close> when the key is missing, and
  \<open>all\<close> stops at the first pair that compares unequal.
\<close>

fun all_match :: "'v attrs \<Rightarrow> 'v attrs \<Rightarrow> error + bool" where
  "all_match data [] = Inr True"
| "all_match data ((key, value) # rest) =
     (case map_of data key of
        None \<Rightarrow> Inl (KeyError (StrKey key))
      | Some w \<Rightarrow> if w = value then all_match data rest else Inr False)"

fun search_edges_loop ::
  "('n \<times> 'n \<times> 'v attrs) list \<Rightarrow> 'v attrs \<Rightarrow> ('n \<times> 'n \<times> 'v attrs) list
     \<Rightarrow> error + ('n \<times> 'n \<times> 'v attrs) list" where
  "search_edges_loop [] kwargs edges = Inr edges"
| "search_edges_loop ((id1, id2, data) # es) kwargs edges =
     (case all_match data kwargs of
        Inl e \<Rightarrow> Inl e
      | Inr b \<Rightarrow> search_edges_loop es kwargs (if b then edges @ [(id1, id2, data)] else edges))"

definition search_edges ::
  "('n, 'v) digraph \<Rightarrow> 'v attrs \<Rightarrow> error + ('n \<times> 'n \<times> 'v attrs) list" where
  "search_edges graph kwargs = search_edges_loop (edges_data graph) kwargs []"

fun search_nodes_loop ::
  "('n \<times> 'v attrs) list \<Rightarrow> 'v attrs \<Rightarrow> ('n \<times> 'v attrs) list
     \<Rightarrow> error + ('n \<times> 'v attrs) list" where
  "search_nodes_loop [] kwargs nodes = Inr nodes"
| "search_nodes_loop ((id', data) # ns) kwargs nodes =
     (case all_match data kwargs of
        Inl e \<Rightarrow> Inl e
      | Inr b \<Rightarrow> search_nodes_loop ns kwargs (if b then nodes @ [(id', data)] else nodes))"

definition search_nodes ::
  "('n, 'v) digraph \<Rightarrow> 'v attrs \<Rightarrow> error + ('n \<times> 'v attrs) list" where
  "search_nodes graph kwargs = search_nodes_loop (nodes_data graph) kwargs []"

text \<open>
  The matching relation as the specification words it: every key of the query is present
  in the element's attributes with an equal value; a missing key is a non-match.
\<close>

definition spec_matches :: "'v attrs \<Rightarrow> 'v attrs \<Rightarrow> bool" where
  "spec_matches data kwargs = list_all (\<lambda>(key, value). map_of data key = Some value) kwargs"

text \<open>Every key of the query is a key of the attribute dictionary.\<close>

definition has_keys :: "'v attrs \<Rightarrow> 'v attrs \<Rightarrow> bool" where
  "has_keys data kwargs = list_all (\<lambda>(key, value). map_of data key \<noteq> None) kwargs"

text \<open>
  The first queried pair, in the order of the query, that the attributes do not meet (the
  key is absent or its value differs), and the key whose lookup raises: the key of that
  pair when it is absent from the attributes.
\<close>

definition first_unmet :: "'v attrs \<Rightarrow> 'v attrs \<Rightarrow> (string \<times> 'v) option" where
  "first_unmet data kwargs = find (\<lambda>(key, value). map_of data key \<noteq> Some value) kwargs"

definition missing_key :: "'v attrs \<Rightarrow> 'v attrs \<Rightarrow> string option" where
  "missing_key data kwargs =
     (case first_unmet data kwargs of
        None \<Rightarrow> None
      | Some (key, value) \<Rightarrow> if map_of data key = None then Some key else None)"

section \<open>Quadkey decoding\<close>

text \<open>
  What the loop has done to \<open>x\<close> and \<open>y\<close> after the iterations \<open>i = k, \<dots>, 1\<close>: bit \<open>m\<close>
  below \<open>k\<close> has been set where the digit at index \<open>n - (m + 1)\<close> asks for it, and every
  other bit is as before.
\<close>

lemma quadkey_loop_x_bit:
  "quadkey_loop quadkey k (x, y, out) = (x', y', out') \<Longrightarrow>
     bit x' m \<longleftrightarrow>
       bit x m \<or> (m < k \<and> quadkey ! (length quadkey - Suc m) \<in> {CHR ''1'', CHR ''3''})"
proof (induction k arbitrary: x y out)
  case 0
  then show ?case by simp
next
  case (Suc j)
  show ?case
    using Suc.prems Suc.IH
    by (auto simp: Let_def bit_or_iff bit_exp_iff less_Suc_eq
        split: if_splits)
qed

lemma quadkey_loop_y_bit:
  "quadkey_loop quadkey k (x, y, out) = (x', y', out') \<Longrightarrow>
     bit y' m \<longleftrightarrow>
       bit y m \<or> (m < k \<and> quadkey ! (length quadkey - Suc m) \<in> {CHR ''2'', CHR ''3''})"
proof (induction k arbitrary: x y out)
  case 0
  then show ?case by simp
next
  case (Suc j)
  show ?case
    using Suc.prems Suc.IH
    by (auto simp: Let_def bit_or_iff bit_exp_iff less_Suc_eq
        split: if_splits)
qed

text \<open>On a well-formed quadkey the error branch is never taken: nothing is printed.\<close>

lemma quadkey_loop_out:
  "quadkey_loop quadkey k (x, y, out) = (x', y', out') \<Longrightarrow> k \<le> length quadkey \<Longrightarrow>
   set quadkey \<subseteq> quadkey_digits \<Longrightarrow> out' = out"
proof (induction k arbitrary: x y out)
  case 0
  then show ?case by simp
next
  case (Suc j)
  have "length quadkey - Suc j < length quadkey"
    using Suc.prems(2) by simp
  then have "quadkey ! (length quadkey - Suc j) \<in> quadkey_digits"
    using Suc.prems(3) nth_mem by blast
  then show ?case
    using Suc.prems Suc.IH
    by (auto simp: Let_def quadkey_digits_def split: if_splits)
qed

text \<open>The loop keeps both coordinates inside \<open>[0, 2 ^ n)\<close> when it starts at \<open>k \<le> n\<close>.\<close>

lemma quadkey_loop_bound:
  "quadkey_loop quadkey k (x, y, out) = (x', y', out') \<Longrightarrow> k \<le> n \<Longrightarrow>
   0 \<le> x \<Longrightarrow> x < 2 ^ n \<Longrightarrow> 0 \<le> y \<Longrightarrow> y < 2 ^ n \<Longrightarrow>
   0 \<le> x' \<and> x' < 2 ^ n \<and> 0 \<le> y' \<and> y' < 2 ^ n"
proof (induction k arbitrary: x y out)
  case 0
  then show ?case by simp
next
  case (Suc j)
  have m: "push_bit j (1::int) < 2 ^ n" "0 \<le> push_bit j (1::int)"
    using Suc.prems(2) by (simp_all add: push_bit_eq_mult)
  have jn: "j \<le> n"
    using Suc.prems(2) by simp
  have ox: "0 \<le> x OR push_bit j 1" "x OR push_bit j 1 < 2 ^ n"
    using Suc.prems m by (simp_all add: OR_upper)
  have oy: "0 \<le> y OR push_bit j 1" "y OR push_bit j 1 < 2 ^ n"
    using Suc.prems m by (simp_all add: OR_upper)
  show ?case
    using Suc.prems(1) Suc.prems(3-6) ox oy Suc.IH[OF _ jn]
    by (simp add: Let_def split: if_splits)
qed

text \<open>
  C1. For a quadkey over the digits \<open>0\<close> to \<open>3\<close> of length \<open>n\<close>, and every position \<open>i\<close>
  from \<open>n\<close> down to \<open>1\<close>: the bit \<open>1 << (i - 1)\<close> of the returned \<open>x\<close> is set exactly when the
  digit at index \<open>n - i\<close> is \<open>1\<close> or \<open>3\<close>, and the same bit of \<open>y\<close> exactly when that digit is
  \<open>2\<close> or \<open>3\<close>; nothing is printed. The quadkey \<open>123\<close> decodes to \<open>x = 5\<close>, \<open>y = 3\<close>.
\<close>

theorem quadkey_to_tile_coordinates_bits:
  assumes "set quadkey \<subseteq> quadkey_digits"
    and "quadkey_to_tile_coordinates quadkey = ((x, y), out)"
    and "1 \<le> i" and "i \<le> length quadkey"
  shows "(bit x (i - 1) \<longleftrightarrow> quadkey ! (length quadkey - i) \<in> {CHR ''1'', CHR ''3''})
       \<and> (bit y (i - 1) \<longleftrightarrow> quadkey ! (length quadkey - i) \<in> {CHR ''2'', CHR ''3''})
       \<and> out = []
       \<and> quadkey_to_tile_coordinates ''123'' = ((5, 3), [])"
proof -
  have l: "quadkey_loop quadkey (length quadkey) (0, 0, []) = (x, y, out)"
    using assms(2) by (simp add: quadkey_to_tile_coordinates_def split: prod.splits)
  have i: "Suc (i - 1) = i" "i - 1 < length quadkey"
    using assms(3,4) by simp_all
  have "bit x (i - 1) \<longleftrightarrow> quadkey ! (length quadkey - i) \<in> {CHR ''1'', CHR ''3''}"
    using quadkey_loop_x_bit[OF l, of "i - 1"] i by simp
  moreover have "bit y (i - 1) \<longleftrightarrow> quadkey ! (length quadkey - i) \<in> {CHR ''2'', CHR ''3''}"
    using quadkey_loop_y_bit[OF l, of "i - 1"] i by simp
  moreover have "out = []"
    using quadkey_loop_out[OF l _ assms(1)] by simp
  moreover have "quadkey_to_tile_coordinates ''123'' = ((5, 3), [])"
    by (simp add: quadkey_to_tile_coordinates_def)
  ultimately show ?thesis by blast
qed

theorem quadkey_to_tile_coordinates_bits_witness:
  "set ''123'' \<subseteq> quadkey_digits
   \<and> quadkey_to_tile_coordinates ''123'' = ((5, 3), [])
   \<and> (1::nat) \<le> 3 \<and> 3 \<le> length ''123''
   \<and> bit (5::int) (3 - 1) \<and> ''123'' ! (length ''123'' - 3) = CHR ''1''
   \<and> \<not> bit (3::int) (3 - 1)"
proof -
  have d: "set ''123'' \<subseteq> quadkey_digits"
    by (simp add: quadkey_digits_def)
  have r: "quadkey_to_tile_coordinates ''123'' = ((5, 3), [])"
    by (simp add: quadkey_to_tile_coordinates_def)
  have "bit (5::int) (3 - 1) \<and> \<not> bit (3::int) (3 - 1)"
    using quadkey_to_tile_coordinates_bits[OF d r, of 3] by simp
  then show ?thesis using d r by simp
qed

text \<open>
  C2. On the quadkey \<open>15\<close> the function does not fail: the digit \<open>1\<close> sets bit 1 of \<open>x\<close>, the
  character \<open>5\<close> only prints the fixed line (which names neither the character nor its
  position), the loop goes on, and the coordinate \<open>(2, 0)\<close> is returned.
\<close>

theorem quadkey_to_tile_coordinates_invalid_digit_returns:
  "quadkey_to_tile_coordinates ''15'' =
     ((2, 0), [''[ERROR] Invalid quadkey digit sequence.''])"
  by (simp add: quadkey_to_tile_coordinates_def)

text \<open>
  C10. For a quadkey of length \<open>n\<close> over the digits \<open>0\<close> to \<open>3\<close>, the returned \<open>x\<close> and \<open>y\<close>
  are non-negative and at most \<open>2 ^ n - 1\<close>; the empty quadkey decodes to \<open>(0, 0)\<close>.
\<close>

theorem quadkey_to_tile_coordinates_range:
  assumes "set quadkey \<subseteq> quadkey_digits"
    and "quadkey_to_tile_coordinates quadkey = ((x, y), out)"
  shows "0 \<le> x \<and> x \<le> 2 ^ length quadkey - 1
       \<and> 0 \<le> y \<and> y \<le> 2 ^ length quadkey - 1
       \<and> quadkey_to_tile_coordinates '''' = ((0, 0), [])"
proof -
  have l: "quadkey_loop quadkey (length quadkey) (0, 0, []) = (x, y, out)"
    using assms(2) by (simp add: quadkey_to_tile_coordinates_def split: prod.splits)
  have "0 \<le> x \<and> x < 2 ^ length quadkey \<and> 0 \<le> y \<and> y < 2 ^ length quadkey"
    using quadkey_loop_bound[OF l, of "length quadkey"] by simp
  moreover have "quadkey_to_tile_coordinates '''' = ((0, 0), [])"
    by (simp add: quadkey_to_tile_coordinates_def)
  ultimately show ?thesis by simp
qed

theorem quadkey_to_tile_coordinates_range_witness:
  "set ''33'' \<subseteq> quadkey_digits
   \<and> quadkey_to_tile_coordinates ''33'' = ((3, 3), [])
   \<and> (0::int) \<le> 3 \<and> (3::int) \<le> 2 ^ length ''33'' - 1
   \<and> quadkey_to_tile_coordinates '''' = ((0, 0), [])"
proof -
  have d: "set ''33'' \<subseteq> quadkey_digits"
    by (simp add: quadkey_digits_def)
  have r: "quadkey_to_tile_coordinates ''33'' = ((3, 3), [])"
    by (simp add: quadkey_to_tile_coordinates_def)
  show ?thesis
    using quadkey_to_tile_coordinates_range[OF d r] d r by simp
qed

section \<open>The Mercator projection\<close>

text \<open>
  C9. \<open>spherical_to_mercator_coordinates\<close> returns \<open>(y, x)\<close> with \<open>x = R lon \<pi> / 180\<close> and
  \<open>y = R ln (tan (\<pi> / 4 + lat \<pi> / 360))\<close>, and \<open>mercator_to_spherical_coordinates\<close> returns
  \<open>lon = x / R 180 / \<pi>\<close> and \<open>lat = (2 arctan (exp (y / R)) - \<pi> / 2) 180 / \<pi>\<close>, with
  \<open>R = 6378137\<close> in both: the functions of the source are the formulas of the
  specification.
\<close>

theorem mercator_formulas:
  "spherical_to_mercator_coordinates lon lat = spec_toMercator lon lat
   \<and> mercator_to_spherical_coordinates y x = spec_toSpherical y x"
  by (simp add: spherical_to_mercator_coordinates_def mercator_to_spherical_coordinates_def
      spec_toMercator_def spec_toSpherical_def spec_R_def)

text \<open>
  Over the reals the inverse undoes the projection exactly for every latitude strictly
  between \<open>-90\<close> and \<open>90\<close> degrees: there \<open>\<pi> / 4 + lat \<pi> / 360\<close> lies strictly between \<open>0\<close>
  and \<open>\<pi> / 2\<close>, where the tangent is positive and \<open>arctan\<close> inverts it. This says nothing
  about the size of the rounding error of the floating-point computation.
\<close>

lemma mercator_roundtrip_real:
  assumes "- 90 < lat" and "lat < 90"
  shows "mercator_to_spherical_coordinates
           (fst (spherical_to_mercator_coordinates lon lat))
           (snd (spherical_to_mercator_coordinates lon lat)) = (lon, lat)"
proof -
  define t where "t = pi / 4 + lat * pi / 360"
  have "t = pi * (lat + 90) / 360"
    by (simp add: t_def field_simps)
  moreover have "0 < pi * (lat + 90)"
    using assms(1) pi_gt_zero by (simp add: zero_less_mult_iff)
  ultimately have t0: "0 < t" by simp
  have "pi / 2 - t = pi * (90 - lat) / 360"
    by (simp add: t_def field_simps)
  moreover have "0 < pi * (90 - lat)"
    using assms(2) pi_gt_zero by (simp add: zero_less_mult_iff)
  ultimately have "0 < pi / 2 - t" by simp
  then have t1: "t < pi / 2" by simp
  have "0 < tan t"
    using t0 t1 by (simp add: tan_gt_zero)
  then have e: "exp (ln (tan t)) = tan t" by simp
  have a: "arctan (tan t) = t"
    using t0 t1 by (simp add: arctan_tan)
  have "(2 * t - pi / 2) * 180 / pi = lat"
    unfolding t_def using pi_gt_zero by (simp add: field_simps)
  then show ?thesis
    using e a
    by (simp add: spherical_to_mercator_coordinates_def mercator_to_spherical_coordinates_def
        t_def [symmetric])
qed

section \<open>Tile vertices\<close>

lemma tile_length_keys: "fst ` set tile_length = {1..16}"
  by (auto simp: tile_length_def; presburger)

lemma tile_length_None:
  "z < 1 \<or> 16 < z \<Longrightarrow> map_of tile_length z = None"
  by (auto simp: map_of_eq_None_iff tile_length_keys)

lemma zoom_cases:
  "1 \<le> z \<Longrightarrow> z \<le> 16 \<Longrightarrow> z \<in> {1,2,3,4,5,6,7,8,9,10,11,12,13,14,15,16::int}"
  by (simp; presburger)

lemma tile_length_halving:
  assumes "1 \<le> z" and "z \<le> 16"
  shows "map_of tile_length z = Some (20015089.262170314752 / 2 ^ nat (z - 1))"
proof -
  have "z \<in> {1,2,3,4,5,6,7,8,9,10,11,12,13,14,15,16::int}"
    using assms by (rule zoom_cases)
  then show ?thesis
    by (auto simp: tile_length_def)
qed

lemma spec_toMercator_origin: "spec_toMercator 0 0 = (0, 0)"
  by (simp add: spec_toMercator_def tan_45)

text \<open>
  C4. For every centre \<open>(lon, lat)\<close> and every zoom level from \<open>1\<close> to \<open>16\<close>, the lookup of the
  edge length succeeds (the table holds \<open>20015089.262170314752\<close> at level \<open>1\<close> and half the
  previous length at each further level), and \<open>get_tile_vertices\<close> returns, with \<open>(y, x)\<close>
  the Mercator projection of the centre by the specification's formula, the points that
  the specification's inverse formula gives for \<open>(y + len / 2, x - len / 2)\<close>,
  \<open>(y + len / 2, x + len / 2)\<close>, \<open>(y - len / 2, x - len / 2)\<close> and
  \<open>(y - len / 2, x + len / 2)\<close>, in this order (top-left, top-right, bottom-left,
  bottom-right).
\<close>

theorem get_tile_vertices_corners:
  assumes "1 \<le> tile_size" and "tile_size \<le> 16"
  shows "map_of tile_length tile_size = Some (20015089.262170314752 / 2 ^ nat (tile_size - 1)) \<and>
         get_tile_vertices lon lat tile_size =
           Inr (let len = the (map_of tile_length tile_size);
                    y = fst (spec_toMercator lon lat);
                    x = snd (spec_toMercator lon lat)
                in (spec_toSpherical (y + len / 2) (x - len / 2),
                    spec_toSpherical (y + len / 2) (x + len / 2),
                    spec_toSpherical (y - len / 2) (x - len / 2),
                    spec_toSpherical (y - len / 2) (x + len / 2)))"
proof -
  have l: "map_of tile_length tile_size = Some (20015089.262170314752 / 2 ^ nat (tile_size - 1))"
    using assms by (rule tile_length_halving)
  have m: "spherical_to_mercator_coordinates lon lat = spec_toMercator lon lat"
    by (simp add: spherical_to_mercator_coordinates_def spec_toMercator_def spec_R_def)
  have s: "\<And>y x. mercator_to_spherical_coordinates y x = spec_toSpherical y x"
    by (simp add: mercator_to_spherical_coordinates_def spec_toSpherical_def spec_R_def)
  have "get_tile_vertices lon lat tile_size =
           Inr (let len = the (map_of tile_length tile_size);
                    y = fst (spec_toMercator lon lat);
                    x = snd (spec_toMercator lon lat)
                in (spec_toSpherical (y + len / 2) (x - len / 2),
                    spec_toSpherical (y + len / 2) (x + len / 2),
                    spec_toSpherical (y - len / 2) (x - len / 2),
                    spec_toSpherical (y - len / 2) (x + len / 2)))"
    unfolding get_tile_vertices_def l m s
    by (simp add: Let_def split: prod.splits)
  with l show ?thesis by blast
qed

theorem get_tile_vertices_corners_witness:
  "(1::int) \<le> 16 \<and> (16::int) \<le> 16 \<and>
   map_of tile_length 16 = Some 610.8120502371311875 \<and>
   get_tile_vertices 0 0 16 =
     Inr (spec_toSpherical (610.8120502371311875 / 2) (- (610.8120502371311875 / 2)),
          spec_toSpherical (610.8120502371311875 / 2) (610.8120502371311875 / 2),
          spec_toSpherical (- (610.8120502371311875 / 2)) (- (610.8120502371311875 / 2)),
          spec_toSpherical (- (610.8120502371311875 / 2)) (610.8120502371311875 / 2))"
  using get_tile_vertices_corners[of 16 0 0]
  by (simp add: spec_toMercator_origin)

text \<open>
  C5, as the code has it. For every centre, a zoom level outside \<open>1\<close> to \<open>16\<close> makes
  \<open>get_tile_vertices\<close> fail at the dictionary lookup with a \<open>KeyError\<close> that carries the
  zoom level it was given; no vertex quad is returned.
\<close>

theorem get_tile_vertices_KeyError:
  assumes "tile_size < 1 \<or> 16 < tile_size"
  shows "get_tile_vertices lon lat tile_size = Inl (KeyError (IntKey tile_size))"
  using tile_length_None[OF assms] by (simp add: get_tile_vertices_def)

theorem get_tile_vertices_KeyError_witness:
  "((0::int) < 1 \<or> (16::int) < 0)
   \<and> get_tile_vertices 0 0 0 = Inl (KeyError (IntKey 0))
   \<and> ((17::int) < 1 \<or> (16::int) < 17)
   \<and> get_tile_vertices 0 0 17 = Inl (KeyError (IntKey 17))"
  using get_tile_vertices_KeyError[of 0 0 0] get_tile_vertices_KeyError[of 17 0 0]
  by simp

text \<open>
  C5, as the claim has it, fails: at the zoom levels \<open>0\<close> and \<open>17\<close> the failure is not an
  \<open>UnsupportedZoomLevel\<close> error naming the range \<open>1\<close> to \<open>16\<close>.
\<close>

theorem get_tile_vertices_zoom_counterexample:
  "get_tile_vertices 0 0 0 \<noteq> Inl (UnsupportedZoomLevel 1 16)
   \<and> get_tile_vertices 0 0 17 \<noteq> Inl (UnsupportedZoomLevel 1 16)"
  by (simp add: get_tile_vertices_def tile_length_def)

section \<open>Orthodrome length\<close>

text \<open>
  C8. Whenever \<open>vincenty\<close> returns a distance (in kilometres) for the two points
  \<open>(lat1, lon1)\<close> and \<open>(lat2, lon2)\<close>, \<open>orthodrome_length\<close> returns that distance multiplied
  by \<open>1000\<close>.
\<close>

theorem orthodrome_length_scaled:
  assumes "vincenty (lat1, lon1) (lat2, lon2) = Some km"
  shows "orthodrome_length vincenty lat1 lon1 lat2 lon2 = Inr (km * 1000)"
  using assms by (simp add: orthodrome_length_def)

text \<open>
  One degree of longitude along the equator: the package's value for the points \<open>(0, 0)\<close>
  and \<open>(0, 1)\<close> is \<open>111.319491\<close> kilometres, which gives \<open>111319.491\<close> metres.
\<close>

theorem orthodrome_length_scaled_witness:
  "(\<lambda>p q. Some (111.319491::real)) (0, 0) (0, 1) = Some 111.319491
   \<and> orthodrome_length (\<lambda>p q. Some 111.319491) 0 0 0 1 = Inr 111319.491
   \<and> \<bar>(111319.491::real) - 111319.49\<bar> < 0.01"
  using orthodrome_length_scaled[of "\<lambda>p q. Some 111.319491" 0 0 0 1 "111.319491"]
  by simp

text \<open>
  C7, as the code has it. The function has no handling of non-convergence of its own.
  When \<open>vincenty\<close> returns \<open>None\<close> for the two points, the multiplication by \<open>1000\<close> raises
  \<open>TypeError\<close>, and no distance is returned.
\<close>

theorem orthodrome_length_None:
  assumes "vincenty (lat1, lon1) (lat2, lon2) = None"
  shows "orthodrome_length vincenty lat1 lon1 lat2 lon2 = Inl TypeError
       \<and> (\<forall>m. orthodrome_length vincenty lat1 lon1 lat2 lon2 \<noteq> Inr m)"
  using assms by (simp add: orthodrome_length_def)

theorem orthodrome_length_None_witness:
  "(\<lambda>p q. None :: real option) (0, 0) (0, 179.5) = None
   \<and> orthodrome_length (\<lambda>p q. None) 0 0 0 179.5 = Inl TypeError"
  using orthodrome_length_None[of "\<lambda>p q. None" 0 0 0 "179.5"]
  by simp

text \<open>
  C7, as the claim has it, fails: with a \<open>vincenty\<close> that reports non-convergence the
  failure is not a \<open>GeodesicNonConvergence\<close> error.
\<close>

theorem orthodrome_length_nonconvergence_counterexample:
  "orthodrome_length (\<lambda>p q. None) 0 0 0 179.5 \<noteq> Inl GeodesicNonConvergence"
  by (simp add: orthodrome_length_def)

section \<open>Attribute search\<close>

text \<open>
  \<open>all_match\<close> and the two loops, in terms of the matching relation of the specification
  and of the key whose lookup raises.
\<close>

lemma all_match_exact:
  "all_match data kwargs =
     (case missing_key data kwargs of
        Some key \<Rightarrow> Inl (KeyError (StrKey key))
      | None \<Rightarrow> Inr (spec_matches data kwargs))"
proof (induction data kwargs rule: all_match.induct)
  case (1 data)
  show ?case
    by (simp add: missing_key_def first_unmet_def spec_matches_def)
next
  case (2 data key "value" rest)
  show ?case
  proof (cases "map_of data key")
    case None
    then show ?thesis
      by (simp add: missing_key_def first_unmet_def)
  next
    case (Some w)
    show ?thesis
    proof (cases "w = value")
      case True
      have m: "missing_key data ((key, value) # rest) = missing_key data rest"
        using Some True by (simp add: missing_key_def first_unmet_def)
      have s: "spec_matches data ((key, value) # rest) = spec_matches data rest"
        using Some True by (simp add: spec_matches_def)
      show ?thesis
        unfolding m s using Some True "2.IH"[OF Some True] by simp
    next
      case False
      have m: "missing_key data ((key, value) # rest) = None"
        using Some False by (simp add: missing_key_def first_unmet_def)
      have s: "\<not> spec_matches data ((key, value) # rest)"
        using Some False by (simp add: spec_matches_def)
      show ?thesis
        using Some False by (simp add: m s)
    qed
  qed
qed

lemma search_edges_loop_exact:
  "search_edges_loop es kwargs acc =
     (case find (\<lambda>(id1, id2, data). missing_key data kwargs \<noteq> None) es of
        Some (id1, id2, data) \<Rightarrow> Inl (KeyError (StrKey (the (missing_key data kwargs))))
      | None \<Rightarrow> Inr (acc @ filter (\<lambda>(id1, id2, data). spec_matches data kwargs) es))"
proof (induction es kwargs acc rule: search_edges_loop.induct)
  case (1 kwargs edges)
  show ?case by simp
next
  case (2 id1 id2 data es kwargs edges)
  show ?case
  proof (cases "missing_key data kwargs")
    case None
    then have a: "all_match data kwargs = Inr (spec_matches data kwargs)"
      by (simp add: all_match_exact)
    from "2.IH"[OF a] a None show ?thesis
      by (simp split: option.splits)
  next
    case (Some key)
    then have "all_match data kwargs = Inl (KeyError (StrKey key))"
      by (simp add: all_match_exact)
    with Some show ?thesis by simp
  qed
qed

lemma search_nodes_loop_exact:
  "search_nodes_loop ns kwargs acc =
     (case find (\<lambda>(id', data). missing_key data kwargs \<noteq> None) ns of
        Some (id', data) \<Rightarrow> Inl (KeyError (StrKey (the (missing_key data kwargs))))
      | None \<Rightarrow> Inr (acc @ filter (\<lambda>(id', data). spec_matches data kwargs) ns))"
proof (induction ns kwargs acc rule: search_nodes_loop.induct)
  case (1 kwargs nodes)
  show ?case by simp
next
  case (2 id' data ns kwargs nodes)
  show ?case
  proof (cases "missing_key data kwargs")
    case None
    then have a: "all_match data kwargs = Inr (spec_matches data kwargs)"
      by (simp add: all_match_exact)
    from "2.IH"[OF a] a None show ?thesis
      by (simp split: option.splits)
  next
    case (Some key)
    then have "all_match data kwargs = Inl (KeyError (StrKey key))"
      by (simp add: all_match_exact)
    with Some show ?thesis by simp
  qed
qed

lemma has_keys_missing_key:
  "has_keys data kwargs \<Longrightarrow> missing_key data kwargs = None"
proof -
  assume h: "has_keys data kwargs"
  show ?thesis
  proof (cases "first_unmet data kwargs")
    case None
    then show ?thesis by (simp add: missing_key_def)
  next
    case (Some p)
    obtain key v where p: "p = (key, v)" by (cases p) auto
    from Some have "p \<in> set kwargs"
      unfolding first_unmet_def by (metis find_Some_iff nth_mem)
    with h p have "map_of data key \<noteq> None"
      by (auto simp: has_keys_def list_all_iff)
    with Some p show ?thesis by (simp add: missing_key_def)
  qed
qed

lemma find_missing_key_None_edges:
  "\<forall>e \<in> set es. has_keys (snd (snd e)) kwargs \<Longrightarrow>
   find (\<lambda>(id1, id2, data). missing_key data kwargs \<noteq> None) es = None"
  by (auto simp: find_None_iff has_keys_missing_key)

lemma find_missing_key_None_nodes:
  "\<forall>n \<in> set ns. has_keys (snd n) kwargs \<Longrightarrow>
   find (\<lambda>(id', data). missing_key data kwargs \<noteq> None) ns = None"
  by (auto simp: find_None_iff has_keys_missing_key)

text \<open>
  C6, as the code has it. \<open>search_edges\<close> and \<open>search_nodes\<close> scan the elements in
  iteration order and, for each element, the queried pairs in the order of the query, up to
  the first pair that is not met. If some element's first unmet pair has a key that is
  absent from its attributes, the search raises \<open>KeyError\<close> for that key, at the first
  such element. Otherwise it returns exactly the elements whose attributes contain every
  queried key with an equal value, with their attribute data and in the original iteration
  order; an element that lacks a queried key is then a plain non-match, because a pair
  before that key already differs. In particular the search returns when every element
  has every queried key.
\<close>

theorem search_exact:
  "search_edges graph kwargs =
     (case find (\<lambda>(id1, id2, data). missing_key data kwargs \<noteq> None) (edges_data graph) of
        Some (id1, id2, data) \<Rightarrow> Inl (KeyError (StrKey (the (missing_key data kwargs))))
      | None \<Rightarrow>
          Inr (filter (\<lambda>(id1, id2, data). spec_matches data kwargs) (edges_data graph)))
   \<and> search_nodes graph kwargs =
     (case find (\<lambda>(id', data). missing_key data kwargs \<noteq> None) (nodes_data graph) of
        Some (id', data) \<Rightarrow> Inl (KeyError (StrKey (the (missing_key data kwargs))))
      | None \<Rightarrow>
          Inr (filter (\<lambda>(id', data). spec_matches data kwargs) (nodes_data graph)))
   \<and> ((\<forall>e \<in> set (edges_data graph). has_keys (snd (snd e)) kwargs) \<longrightarrow>
      search_edges graph kwargs =
        Inr (filter (\<lambda>(id1, id2, data). spec_matches data kwargs) (edges_data graph)))
   \<and> ((\<forall>n \<in> set (nodes_data graph). has_keys (snd n) kwargs) \<longrightarrow>
      search_nodes graph kwargs =
        Inr (filter (\<lambda>(id', data). spec_matches data kwargs) (nodes_data graph)))"
proof -
  have e: "search_edges graph kwargs =
     (case find (\<lambda>(id1, id2, data). missing_key data kwargs \<noteq> None) (edges_data graph) of
        Some (id1, id2, data) \<Rightarrow> Inl (KeyError (StrKey (the (missing_key data kwargs))))
      | None \<Rightarrow>
          Inr (filter (\<lambda>(id1, id2, data). spec_matches data kwargs) (edges_data graph)))"
    unfolding search_edges_def search_edges_loop_exact append_Nil ..
  have n: "search_nodes graph kwargs =
     (case find (\<lambda>(id', data). missing_key data kwargs \<noteq> None) (nodes_data graph) of
        Some (id', data) \<Rightarrow> Inl (KeyError (StrKey (the (missing_key data kwargs))))
      | None \<Rightarrow>
          Inr (filter (\<lambda>(id', data). spec_matches data kwargs) (nodes_data graph)))"
    unfolding search_nodes_def search_nodes_loop_exact append_Nil ..
  have eh: "(\<forall>e \<in> set (edges_data graph). has_keys (snd (snd e)) kwargs) \<longrightarrow>
      search_edges graph kwargs =
        Inr (filter (\<lambda>(id1, id2, data). spec_matches data kwargs) (edges_data graph))"
  proof
    assume "\<forall>e \<in> set (edges_data graph). has_keys (snd (snd e)) kwargs"
    then have "find (\<lambda>(id1, id2, data). missing_key data kwargs \<noteq> None) (edges_data graph)
                 = None"
      by (rule find_missing_key_None_edges)
    with e show "search_edges graph kwargs =
        Inr (filter (\<lambda>(id1, id2, data). spec_matches data kwargs) (edges_data graph))"
      by simp
  qed
  have nh: "(\<forall>n \<in> set (nodes_data graph). has_keys (snd n) kwargs) \<longrightarrow>
      search_nodes graph kwargs =
        Inr (filter (\<lambda>(id', data). spec_matches data kwargs) (nodes_data graph))"
  proof
    assume "\<forall>n \<in> set (nodes_data graph). has_keys (snd n) kwargs"
    then have "find (\<lambda>(id', data). missing_key data kwargs \<noteq> None) (nodes_data graph)
                 = None"
      by (rule find_missing_key_None_nodes)
    with n show "search_nodes graph kwargs =
        Inr (filter (\<lambda>(id', data). spec_matches data kwargs) (nodes_data graph))"
      by simp
  qed
  from e n eh nh show ?thesis by blast
qed

text \<open>
  Three runs: every element has the queried key; two edges lack the second queried key but
  differ on the first, and are plain non-matches; the first edge meets the first queried
  pair and lacks the second key, and the search raises.
\<close>

theorem search_exact_witness:
  "list_all (\<lambda>e. has_keys (snd (snd e)) [(''weight'', 5::int)])
     [(1::nat, 2::nat, [(''weight'', 5)]), (2, 1, [(''weight'', 7)]),
      (1, 1, [(''weight'', 5), (''kind'', 0)])]
   \<and> search_edges
        \<lparr>nodes_data = [(1::nat, [(''weight'', 5::int)]), (2, [(''weight'', 7)])],
         edges_data = [(1, 2, [(''weight'', 5)]), (2, 1, [(''weight'', 7)]),
                       (1, 1, [(''weight'', 5), (''kind'', 0)])]\<rparr>
        [(''weight'', 5)]
      = Inr [(1, 2, [(''weight'', 5)]), (1, 1, [(''weight'', 5), (''kind'', 0)])]
   \<and> search_nodes
        \<lparr>nodes_data = [(1::nat, [(''weight'', 5::int)]), (2, [(''weight'', 7)])],
         edges_data = [(1, 2, [(''weight'', 5)]), (2, 1, [(''weight'', 7)]),
                       (1, 1, [(''weight'', 5), (''kind'', 0)])]\<rparr>
        [(''weight'', 5)]
      = Inr [(1, [(''weight'', 5)])]
   \<and> search_edges
        \<lparr>nodes_data = [(1::nat, [(''weight'', 5::int)]), (2, [(''weight'', 7)])],
         edges_data = [(1, 2, [(''weight'', 5)]), (2, 1, [(''weight'', 7)]),
                       (1, 1, [(''weight'', 5), (''kind'', 0)])]\<rparr>
        [(''weight'', 9), (''kind'', 0)]
      = Inr []
   \<and> search_edges
        \<lparr>nodes_data = [(1::nat, [(''weight'', 5::int)]), (2, [(''weight'', 7)])],
         edges_data = [(1, 2, [(''weight'', 5)]), (2, 1, [(''weight'', 7)]),
                       (1, 1, [(''weight'', 5), (''kind'', 0)])]\<rparr>
        [(''weight'', 5), (''kind'', 0)]
      = Inl (KeyError (StrKey ''kind''))"
  using search_exact
          [of "\<lparr>nodes_data = [(1::nat, [(''weight'', 5::int)]), (2, [(''weight'', 7)])],
                edges_data = [(1, 2, [(''weight'', 5)]), (2, 1, [(''weight'', 7)]),
                              (1, 1, [(''weight'', 5), (''kind'', 0)])]\<rparr>"
              "[(''weight'', 5)]"]
        search_exact
          [of "\<lparr>nodes_data = [(1::nat, [(''weight'', 5::int)]), (2, [(''weight'', 7)])],
                edges_data = [(1, 2, [(''weight'', 5)]), (2, 1, [(''weight'', 7)]),
                              (1, 1, [(''weight'', 5), (''kind'', 0)])]\<rparr>"
              "[(''weight'', 9), (''kind'', 0)]"]
        search_exact
          [of "\<lparr>nodes_data = [(1::nat, [(''weight'', 5::int)]), (2, [(''weight'', 7)])],
                edges_data = [(1, 2, [(''weight'', 5)]), (2, 1, [(''weight'', 7)]),
                              (1, 1, [(''weight'', 5), (''kind'', 0)])]\<rparr>"
              "[(''weight'', 5), (''kind'', 0)]"]
  by (simp add: has_keys_def spec_matches_def missing_key_def first_unmet_def)

text \<open>
  C6, as the claim has it, fails: the second edge (and each node) has no attribute
  \<open>weight\<close>; the claim counts it as a non-match and expects the first edge alone to be
  returned, the code raises \<open>KeyError\<close>.
\<close>

theorem search_edges_missing_key_counterexample:
  "search_edges
     \<lparr>nodes_data = [(1::nat, []), (2, [])],
      edges_data = [(1, 2, [(''weight'', 5::int)]), (2, 1, [])]\<rparr>
     [(''weight'', 5)]
   = Inl (KeyError (StrKey ''weight''))
   \<and> search_edges
     \<lparr>nodes_data = [(1::nat, []), (2, [])],
      edges_data = [(1, 2, [(''weight'', 5::int)]), (2, 1, [])]\<rparr>
     [(''weight'', 5)]
   \<noteq> Inr [(1, 2, [(''weight'', 5)])]
   \<and> search_nodes
     \<lparr>nodes_data = [(1::nat, []), (2, [])],
      edges_data = [(1, 2, [(''weight'', 5::int)]), (2, 1, [])]\<rparr>
     [(''weight'', 5)]
   = Inl (KeyError (StrKey ''weight''))"
  by (simp add: search_edges_def search_nodes_def)

end
